theory Spec2Isabelle
  imports Main "HOL-Library.Word"
begin

section \<open>JavaScript values held by the form and sent to the server\<close>

text \<open>
  A JavaScript string is a sequence of UTF-16 code units, and \<open>length\<close> counts code
  units; \<open>js\<close> writes an ASCII literal as such a string.
\<close>

type_synonym code_unit = "16 word"
type_synonym jsstring = "code_unit list"

definition js :: "string \<Rightarrow> jsstring" where
  "js s = map of_char s"

text \<open>
  The form library stores whatever \<open>setValue\<close> is given, so the fields
  \<open>keywords\<close> and \<open>subreddits\<close> hold a value that may or may not be an array
  (\<open>handleSubmit\<close> tests it with \<open>Array.isArray\<close>). The elements of an array are
  strings, as the declared type \<open>string[]\<close> says.
\<close>

datatype jsval = Undefined | Str jsstring | Array "jsstring list"

fun Array_isArray :: "jsval \<Rightarrow> bool" where
  "Array_isArray (Array xs) = True"
| "Array_isArray v = False"

text \<open>\<open>Omit<Project, 'id'>\<close> and \<open>Project\<close>.\<close>

record project_data =
  name :: jsstring
  description :: jsstring
  "keywords" :: jsval
  subreddits :: jsval

record project = project_data +
  project_id :: jsstring

text \<open>The object \<open>api.analyzeInitial\<close> resolves with.\<close>

record analysis_result =
  data_keywords :: jsval
  data_subreddits :: jsval

text \<open>What a rejected promise of the \<open>api\<close> module carries.\<close>

datatype error = NetworkError | HttpError nat

text \<open>The requests the two components send through the \<open>api\<close> module.\<close>

datatype request =
    AnalyzeInitial jsstring jsstring
  | GetProjects
  | CreateProject project_data
  | DeleteProject jsstring

datatype toast = toast_error string | toast_success string

section \<open>State of the projects page and of the dialog it renders\<close>

text \<open>
  The \<open>useState\<close> cells of \<open>CreateProjectDialog\<close> (\<open>step\<close>, \<open>loading\<close>,
  \<open>loadingMessage\<close>), the values of its form, the cells of \<open>ProjectsPage\<close>
  (\<open>projects\<close>, \<open>isCreateOpen\<close>, \<open>isLoading\<close>), and two logs: the notifications
  shown and the requests sent, both in order. The dialog's \<open>open\<close> property is
  \<open>isCreateOpen\<close> and its \<open>onOpenChange\<close> is \<open>setIsCreateOpen\<close>.
\<close>

record state =
  step :: nat
  loading :: bool
  loadingMessage :: string
  form :: project_data
  projects :: "project list"
  isCreateOpen :: bool
  isLoading :: bool
  toasts :: "toast list"
  calls :: "request list"

definition defaultValues :: project_data where
  "defaultValues = \<lparr>name = [], description = [], keywords = Array [], subreddits = Array []\<rparr>"

definition initial :: state where
  "initial = \<lparr>step = 1, loading = False, loadingMessage = [], form = defaultValues,
     projects = [], isCreateOpen = False, isLoading = True, toasts = [], calls = []\<rparr>"

definition toast_add :: "toast \<Rightarrow> state \<Rightarrow> state" where
  "toast_add t s = s\<lparr>toasts := toasts s @ [t]\<rparr>"

definition api_call :: "request \<Rightarrow> state \<Rightarrow> state" where
  "api_call q s = s\<lparr>calls := calls s @ [q]\<rparr>"

section \<open>CreateProjectDialog\<close>

text \<open>
  \<open>name && description && description.length >= 10\<close>: a string is truthy when it is
  not empty.
\<close>

definition isFormValid :: "project_data \<Rightarrow> bool" where
  "isFormValid f = (name f \<noteq> [] \<and> description f \<noteq> [] \<and> 10 \<le> length (description f))"

text \<open>
  The effect that runs when \<open>open\<close> changes: \<open>reset()\<close> puts the default values
  back and \<open>setStep(1)\<close> follows, both only when the dialog is not open. It touches
  neither \<open>loading\<close> nor \<open>loadingMessage\<close>.
\<close>

definition resetEffect :: "state \<Rightarrow> state" where
  "resetEffect s = (if \<not> isCreateOpen s then s\<lparr>form := defaultValues, step := 1\<rparr> else s)"

definition onOpenChange :: "bool \<Rightarrow> state \<Rightarrow> state" where
  "onOpenChange b s = (if isCreateOpen s = b then s else resetEffect (s\<lparr>isCreateOpen := b\<rparr>))"

text \<open>
  An asynchronous handler runs up to its \<open>await\<close> when it is called, and the rest
  when the request settles. Each handler is therefore two functions: \<open>_begin\<close>, which
  ends by sending the request, and \<open>_resume\<close>, which takes what the promise settled
  with (\<open>Inl\<close> a rejection, \<open>Inr\<close> the value) and returns how the handler's own
  promise settles together with the new state. Every write after an \<open>await\<close> is a
  setter that does not read a captured value, so \<open>_resume\<close> acts on the state at the
  time the response arrives.
\<close>

definition handleAnalyze_begin :: "state \<Rightarrow> state" where
  "handleAnalyze_begin s =
     (if \<not> isFormValid (form s)
      then toast_add (toast_error
             ''Please enter a project name and description (at least 10 characters)'') s
      else api_call (AnalyzeInitial (name (form s)) (description (form s)))
             (s\<lparr>loading := True, loadingMessage := ''Analyzing your project...''\<rparr>))"

definition handleAnalyze_resume :: "error + analysis_result \<Rightarrow> state \<Rightarrow> (error + unit) \<times> state" where
  "handleAnalyze_resume r s =
     (let s1 = (case r of
                  Inr data \<Rightarrow>
                    s\<lparr>form := (form s)\<lparr>keywords := data_keywords data,
                                         subreddits := data_subreddits data\<rparr>,
                      step := 2\<rparr>
                | Inl e \<Rightarrow>
                    toast_add (toast_error ''Failed to analyze project. Please try again.'') s)
      in (Inr (), s1\<lparr>loading := False, loadingMessage := []\<rparr>))"

text \<open>The handler run with nothing else happening while the request is in flight.\<close>

definition handleAnalyze :: "error + analysis_result \<Rightarrow> state \<Rightarrow> (error + unit) \<times> state" where
  "handleAnalyze r s =
     (if isFormValid (form s) then handleAnalyze_resume r (handleAnalyze_begin s)
      else (Inr (), handleAnalyze_begin s))"

text \<open>
  \<open>s.replace(/^r\//, '')\<close>: the pattern matches the two code units \<open>r\<close> and
  \<open>/\<close> at the start of the string only, and the one match is replaced by the empty
  string.
\<close>

fun matches_r_slash :: "jsstring \<Rightarrow> bool" where
  "matches_r_slash (a # b # rest) = (a = 0x72 \<and> b = 0x2F)"
| "matches_r_slash s = False"

definition replace_r_slash :: "jsstring \<Rightarrow> jsstring" where
  "replace_r_slash s = (if matches_r_slash s then drop 2 s else s)"

definition formattedData :: "project_data \<Rightarrow> project_data" where
  "formattedData projectData =
     projectData\<lparr>
       keywords := (if Array_isArray (keywords projectData) then keywords projectData
                    else Array []),
       subreddits := (case subreddits projectData of
                        Array xs \<Rightarrow> Array (map replace_r_slash xs)
                      | _ \<Rightarrow> Array [])\<rparr>"

section \<open>ProjectsPage\<close>

definition loadProjects_begin :: "state \<Rightarrow> state" where
  "loadProjects_begin s = api_call GetProjects s"

definition loadProjects_resume :: "error + project list \<Rightarrow> state \<Rightarrow> (error + unit) \<times> state" where
  "loadProjects_resume r s =
     (let s1 = (case r of
                  Inr fetchedProjects \<Rightarrow> s\<lparr>projects := fetchedProjects\<rparr>
                | Inl e \<Rightarrow>
                    toast_add (toast_error ''Failed to load projects. Please try again.'') s)
      in (Inr (), s1\<lparr>isLoading := False\<rparr>))"

definition loadProjects :: "error + project list \<Rightarrow> state \<Rightarrow> (error + unit) \<times> state" where
  "loadProjects r s = loadProjects_resume r (loadProjects_begin s)"

definition handleCreateProject_begin :: "project_data \<Rightarrow> state \<Rightarrow> state" where
  "handleCreateProject_begin projectData s = api_call (CreateProject projectData) s"

definition handleCreateProject_resume :: "error + project \<Rightarrow> state \<Rightarrow> (error + unit) \<times> state" where
  "handleCreateProject_resume r s =
     (case r of
        Inr newProject \<Rightarrow>
          (Inr (), toast_add (toast_success ''Project created successfully!'')
                     (s\<lparr>projects := projects s @ [newProject]\<rparr>))
      | Inl e \<Rightarrow>
          (Inl e, toast_add (toast_error ''Failed to create project. Please try again.'') s))"

definition handleDeleteProject_begin :: "jsstring \<Rightarrow> state \<Rightarrow> state" where
  "handleDeleteProject_begin projectId s =
     api_call (DeleteProject projectId)
       (s\<lparr>projects := filter (\<lambda>p. project_id p \<noteq> projectId) (projects s)\<rparr>)"

text \<open>
  In the \<open>catch\<close> branch \<open>loadProjects()\<close> is called and not awaited: the request is
  sent, the notification follows at once, and the reload settles later.
\<close>

definition handleDeleteProject_resume :: "error + unit \<Rightarrow> state \<Rightarrow> (error + unit) \<times> state" where
  "handleDeleteProject_resume r s =
     (case r of
        Inr u \<Rightarrow> (Inr (), toast_add (toast_success ''Project deleted successfully'') s)
      | Inl e \<Rightarrow>
          (Inr (), toast_add (toast_error ''Failed to delete project. Please try again.'')
                     (loadProjects_begin s)))"

text \<open>
  Deleting with nothing else happening in between: \<open>rd\<close> settles the delete request
  and, when that was a rejection, \<open>rl\<close> settles the reload it started.
\<close>

definition handleDeleteProject ::
  "jsstring \<Rightarrow> error + unit \<Rightarrow> error + project list \<Rightarrow> state \<Rightarrow> (error + unit) \<times> state" where
  "handleDeleteProject projectId rd rl s =
     (let s1 = snd (handleDeleteProject_resume rd (handleDeleteProject_begin projectId s))
      in (case rd of
            Inr u \<Rightarrow> (Inr (), s1)
          | Inl e \<Rightarrow> loadProjects_resume rl s1))"

section \<open>Submitting the dialog\<close>

text \<open>
  \<open>handleSubmit\<close> awaits \<open>onProjectCreated\<close>, which is \<open>handleCreateProject\<close>; the
  request is sent inside it.
\<close>

definition handleSubmit_begin :: "state \<Rightarrow> state" where
  "handleSubmit_begin s =
     handleCreateProject_begin (formattedData (form s))
       (s\<lparr>loading := True, loadingMessage := ''Creating your project...''\<rparr>)"

definition handleSubmit_resume :: "error + project \<Rightarrow> state \<Rightarrow> (error + unit) \<times> state" where
  "handleSubmit_resume r s =
     (let created = handleCreateProject_resume r s;
          s1 = (case fst created of
                  Inr u \<Rightarrow>
                    toast_add (toast_success ''Project created successfully!'')
                      (onOpenChange False (snd created))
                | Inl e \<Rightarrow>
                    toast_add (toast_error ''Failed to create project. Please try again.'')
                      (snd created))
      in (Inr (), s1\<lparr>loading := False, loadingMessage := []\<rparr>))"

definition handleSubmit :: "error + project \<Rightarrow> state \<Rightarrow> (error + unit) \<times> state" where
  "handleSubmit r s = handleSubmit_resume r (handleSubmit_begin s)"

section \<open>The user interface as a machine of events\<close>

text \<open>
  What the two buttons of the dialog are given as \<open>disabled\<close>:
  \<open>!isFormValid || loading\<close> for the button that calls \<open>handleAnalyze\<close> and
  \<open>loading\<close> for the one that calls \<open>handleSubmit\<close>.
\<close>

definition analyze_disabled :: "state \<Rightarrow> bool" where
  "analyze_disabled s = (\<not> isFormValid (form s) \<or> loading s)"

definition submit_disabled :: "state \<Rightarrow> bool" where
  "submit_disabled s = loading s"

text \<open>
  The page renders only a spinner while \<open>isLoading\<close> holds, and the dialog shows its
  content only when it is open.
\<close>

definition dialog_shown :: "state \<Rightarrow> bool" where
  "dialog_shown s = (\<not> isLoading s \<and> isCreateOpen s)"

text \<open>
  The events: the page's mount effect, opening and dismissing the dialog, typing into
  the two inputs, the buttons, and the settling of a request that was sent. A settling
  event names the request and carries what its promise settles with.
\<close>

datatype event =
    Mount
  | OpenChange bool
  | TypeName jsstring
  | TypeDescription jsstring
  | ClickAnalyze
  | ClickBack
  | ClickSubmit
  | ClickDelete jsstring
  | AnalyzeSettled jsstring jsstring "error + analysis_result"
  | CreateSettled project_data "error + project"
  | DeleteSettled jsstring "error + unit"
  | LoadSettled "error + project list"

text \<open>
  A configuration is the state together with the requests sent and not yet settled.
  \<open>dispatch\<close> runs a piece of a handler and adds the requests it sent, which are the
  new entries of the log \<open>calls\<close>; \<open>settle\<close> takes a pending request away and runs
  the rest of its handler.
\<close>

type_synonym config = "state \<times> request list"

definition dispatch :: "(state \<Rightarrow> state) \<Rightarrow> config \<Rightarrow> config" where
  "dispatch h c = (let s = h (fst c) in (s, snd c @ drop (length (calls (fst c))) (calls s)))"

definition settle ::
  "request \<Rightarrow> (state \<Rightarrow> (error + unit) \<times> state) \<Rightarrow> config \<Rightarrow> config option" where
  "settle q h c =
     (if q \<in> set (snd c) then Some (dispatch (\<lambda>s. snd (h s)) (fst c, remove1 q (snd c)))
      else None)"

text \<open>
  An event that the interface does not offer in a configuration yields \<open>None\<close>: an
  input or a button that is not rendered or is disabled, a response to a request that
  is not pending. Dismissing the dialog is offered whatever \<open>loading\<close> is.
\<close>

fun fire :: "event \<Rightarrow> config \<Rightarrow> config option" where
  "fire Mount c = Some (dispatch loadProjects_begin c)"
| "fire (OpenChange b) c =
     (if \<not> isLoading (fst c) then Some (dispatch (onOpenChange b) c) else None)"
| "fire (TypeName v) c =
     (if dialog_shown (fst c) \<and> step (fst c) = 1 \<and> \<not> loading (fst c)
      then Some (dispatch (\<lambda>s. s\<lparr>form := (form s)\<lparr>name := v\<rparr>\<rparr>) c) else None)"
| "fire (TypeDescription v) c =
     (if dialog_shown (fst c) \<and> step (fst c) = 1 \<and> \<not> loading (fst c)
      then Some (dispatch (\<lambda>s. s\<lparr>form := (form s)\<lparr>description := v\<rparr>\<rparr>) c) else None)"
| "fire ClickAnalyze c =
     (if dialog_shown (fst c) \<and> step (fst c) = 1 \<and> \<not> analyze_disabled (fst c)
      then Some (dispatch handleAnalyze_begin c) else None)"
| "fire ClickBack c =
     (if dialog_shown (fst c) \<and> step (fst c) \<noteq> 1 \<and> \<not> loading (fst c)
      then Some (dispatch (\<lambda>s. s\<lparr>step := 1\<rparr>) c) else None)"
| "fire ClickSubmit c =
     (if dialog_shown (fst c) \<and> step (fst c) \<noteq> 1 \<and> \<not> submit_disabled (fst c)
      then Some (dispatch handleSubmit_begin c) else None)"
| "fire (ClickDelete projectId) c =
     (if \<not> isLoading (fst c) \<and> projectId \<in> set (map project_id (projects (fst c)))
      then Some (dispatch (handleDeleteProject_begin projectId) c) else None)"
| "fire (AnalyzeSettled n d r) c = settle (AnalyzeInitial n d) (handleAnalyze_resume r) c"
| "fire (CreateSettled pd r) c = settle (CreateProject pd) (handleSubmit_resume r) c"
| "fire (DeleteSettled projectId r) c =
     settle (DeleteProject projectId) (handleDeleteProject_resume r) c"
| "fire (LoadSettled r) c = settle GetProjects (loadProjects_resume r) c"

fun run :: "event list \<Rightarrow> config \<Rightarrow> config option" where
  "run [] c = Some c"
| "run (e # es) c = (case fire e c of None \<Rightarrow> None | Some c' \<Rightarrow> run es c')"

text \<open>The requests of the dialog that are in flight, and the invariant of its busy flag.\<close>

fun dialog_request :: "request \<Rightarrow> bool" where
  "dialog_request (AnalyzeInitial n d) = True"
| "dialog_request (CreateProject pd) = True"
| "dialog_request q = False"

definition in_flight :: "config \<Rightarrow> request list" where
  "in_flight c = filter dialog_request (snd c)"

definition busy_inv :: "config \<Rightarrow> bool" where
  "busy_inv c = (length (in_flight c) = (if loading (fst c) then 1 else 0))"

section \<open>Facts about the handlers\<close>

lemmas handler_defs = toast_add_def api_call_def handleAnalyze_begin_def handleAnalyze_resume_def
  handleAnalyze_def loadProjects_begin_def loadProjects_resume_def loadProjects_def
  handleCreateProject_begin_def handleCreateProject_resume_def handleDeleteProject_begin_def
  handleDeleteProject_resume_def handleDeleteProject_def handleSubmit_begin_def
  handleSubmit_resume_def handleSubmit_def

lemmas machine_defs = dispatch_def settle_def dialog_shown_def analyze_disabled_def
  submit_disabled_def in_flight_def onOpenChange_def resetEffect_def initial_def
  defaultValues_def isFormValid_def js_def Let_def

lemma isFormValid_iff:
  "isFormValid f \<longleftrightarrow> name f \<noteq> [] \<and> 10 \<le> length (description f)"
  by (auto simp: isFormValid_def)

text \<open>What \<open>handleSubmit\<close> sends is \<open>formattedData\<close> of the form.\<close>

lemma submit_sends_formattedData:
  "calls (handleSubmit_begin s) = calls s @ [CreateProject (formattedData (form s))]"
  by (simp add: handler_defs)

lemma matches_replace:
  "matches_r_slash (replace_r_slash x) = (matches_r_slash x \<and> matches_r_slash (drop 2 x))"
  by (simp add: replace_r_slash_def)

lemma replace_fixed: "\<not> matches_r_slash x \<Longrightarrow> replace_r_slash x = x"
  by (simp add: replace_r_slash_def)

lemma replace_twice:
  "\<not> (matches_r_slash x \<and> matches_r_slash (drop 2 x)) \<Longrightarrow>
     replace_r_slash (replace_r_slash x) = replace_r_slash x"
  by (rule replace_fixed) (simp add: matches_replace)

subsection \<open>Validation before the analysis request\<close>

text \<open>
  C2. When the name is empty or the description is shorter than 10 code units,
  \<open>handleAnalyze\<close> sends no request: its whole effect is the notification that asks
  for a name and a description, and its promise resolves. When the name is not empty
  and the description has at least 10 code units, the request \<open>analyzeInitial\<close> is
  sent with the name and the description of the form.
\<close>

theorem analyze_validation_gate:
  "(name (form s) = [] \<or> length (description (form s)) < 10 \<longrightarrow>
      handleAnalyze r s =
        (Inr (), s\<lparr>toasts := toasts s @
           [toast_error ''Please enter a project name and description (at least 10 characters)'']\<rparr>) \<and>
      calls (handleAnalyze_begin s) = calls s \<and>
      calls (snd (handleAnalyze r s)) = calls s) \<and>
   (name (form s) \<noteq> [] \<and> 10 \<le> length (description (form s)) \<longrightarrow>
      calls (handleAnalyze_begin s)
        = calls s @ [AnalyzeInitial (name (form s)) (description (form s))] \<and>
      calls (snd (handleAnalyze r s))
        = calls s @ [AnalyzeInitial (name (form s)) (description (form s))])"
  by (cases r) (auto simp add: handler_defs isFormValid_def)

theorem analyze_validation_gate_witness:
  "name (form initial) = [] \<and>
   calls (snd (handleAnalyze (Inl NetworkError) initial)) = [] \<and>
   toasts (snd (handleAnalyze (Inl NetworkError) initial))
     = [toast_error ''Please enter a project name and description (at least 10 characters)''] \<and>
   length (description (form (initial\<lparr>form := defaultValues\<lparr>name := js ''app'',
       description := js ''too short''\<rparr>\<rparr>))) < 10 \<and>
   calls (snd (handleAnalyze (Inl NetworkError) (initial\<lparr>form := defaultValues\<lparr>name := js ''app'',
       description := js ''too short''\<rparr>\<rparr>))) = [] \<and>
   name (form (initial\<lparr>form := defaultValues\<lparr>name := js ''app'',
       description := js ''ten chars.''\<rparr>\<rparr>)) \<noteq> [] \<and>
   10 \<le> length (description (form (initial\<lparr>form := defaultValues\<lparr>name := js ''app'',
       description := js ''ten chars.''\<rparr>\<rparr>))) \<and>
   calls (handleAnalyze_begin (initial\<lparr>form := defaultValues\<lparr>name := js ''app'',
       description := js ''ten chars.''\<rparr>\<rparr>))
     = [AnalyzeInitial (js ''app'') (js ''ten chars.'')]"
  using analyze_validation_gate [of initial "Inl NetworkError"]
    analyze_validation_gate [of "initial\<lparr>form := defaultValues\<lparr>name := js ''app'',
       description := js ''too short''\<rparr>\<rparr>" "Inl NetworkError"]
    analyze_validation_gate [of "initial\<lparr>form := defaultValues\<lparr>name := js ''app'',
       description := js ''ten chars.''\<rparr>\<rparr>" "Inl NetworkError"]
  by (simp add: initial_def defaultValues_def js_def)

subsection \<open>The outcome of the analysis\<close>

text \<open>
  C5. From a form that passes the validation, an analysis that succeeds leaves the
  dialog at step 2 with exactly the returned keywords and subreddits in the form, the
  name and the description as they were. An analysis that fails leaves the step and
  the whole form as they were, so a dialog at step 1 stays at step 1.
\<close>

theorem analyze_outcome:
  "isFormValid (form s) \<Longrightarrow>
     step (snd (handleAnalyze (Inr data) s)) = 2 \<and>
     keywords (form (snd (handleAnalyze (Inr data) s))) = data_keywords data \<and>
     subreddits (form (snd (handleAnalyze (Inr data) s))) = data_subreddits data \<and>
     name (form (snd (handleAnalyze (Inr data) s))) = name (form s) \<and>
     description (form (snd (handleAnalyze (Inr data) s))) = description (form s) \<and>
     step (snd (handleAnalyze (Inl e) s)) = step s \<and>
     form (snd (handleAnalyze (Inl e) s)) = form s"
  by (simp add: handler_defs)

theorem analyze_outcome_witness:
  "isFormValid (form (initial\<lparr>form := defaultValues\<lparr>name := js ''app'',
       description := js ''a long description''\<rparr>\<rparr>)) \<and>
   step (snd (handleAnalyze
       (Inr \<lparr>data_keywords = Array [js ''go''], data_subreddits = Array [js ''golang'']\<rparr>)
       (initial\<lparr>form := defaultValues\<lparr>name := js ''app'',
          description := js ''a long description''\<rparr>\<rparr>))) = 2 \<and>
   form (snd (handleAnalyze
       (Inr \<lparr>data_keywords = Array [js ''go''], data_subreddits = Array [js ''golang'']\<rparr>)
       (initial\<lparr>form := defaultValues\<lparr>name := js ''app'',
          description := js ''a long description''\<rparr>\<rparr>)))
     = \<lparr>name = js ''app'', description = js ''a long description'',
        keywords = Array [js ''go''], subreddits = Array [js ''golang'']\<rparr> \<and>
   step (snd (handleAnalyze (Inl (HttpError 500))
       (initial\<lparr>form := defaultValues\<lparr>name := js ''app'',
          description := js ''a long description''\<rparr>\<rparr>))) = 1"
  using analyze_outcome [of "initial\<lparr>form := defaultValues\<lparr>name := js ''app'',
          description := js ''a long description''\<rparr>\<rparr>"
        "\<lparr>data_keywords = Array [js ''go''], data_subreddits = Array [js ''golang'']\<rparr>"
        "HttpError 500"]
  by (simp add: initial_def defaultValues_def js_def isFormValid_def)

subsection \<open>The payload of a submission\<close>

text \<open>
  C10. The request \<open>handleSubmit\<close> sends carries \<open>formattedData\<close> of the form, and
  in it \<open>keywords\<close> and \<open>subreddits\<close> are arrays whatever the form holds: a field
  that is not an array is replaced by the empty array.
\<close>

theorem payload_fields_are_arrays:
  "Array_isArray (keywords (formattedData f)) \<and>
   Array_isArray (subreddits (formattedData f)) \<and>
   (\<not> Array_isArray (keywords f) \<longrightarrow> keywords (formattedData f) = Array []) \<and>
   (\<not> Array_isArray (subreddits f) \<longrightarrow> subreddits (formattedData f) = Array []) \<and>
   calls (handleSubmit_begin s) = calls s @ [CreateProject (formattedData (form s))]"
  by (cases "subreddits f") (simp_all add: formattedData_def handler_defs)

theorem payload_fields_are_arrays_witness:
  "\<not> Array_isArray (keywords \<lparr>name = js ''app'', description = js ''a long description'',
        keywords = Undefined, subreddits = Str (js ''golang'')\<rparr>) \<and>
   \<not> Array_isArray (subreddits \<lparr>name = js ''app'', description = js ''a long description'',
        keywords = Undefined, subreddits = Str (js ''golang'')\<rparr>) \<and>
   formattedData \<lparr>name = js ''app'', description = js ''a long description'',
        keywords = Undefined, subreddits = Str (js ''golang'')\<rparr>
     = \<lparr>name = js ''app'', description = js ''a long description'',
        keywords = Array [], subreddits = Array []\<rparr>"
  using payload_fields_are_arrays [of "\<lparr>name = js ''app'', description = js ''a long description'',
        keywords = Undefined, subreddits = Str (js ''golang'')\<rparr>" initial]
  by (simp add: formattedData_def)

text \<open>
  C3 as stated does not hold: \<open>replace\<close> removes one \<open>r/\<close>, so a subreddit written
  \<open>r/r/golang\<close> in the form is sent as \<open>r/golang\<close>, which starts with \<open>r/\<close>.
\<close>

theorem payload_subreddit_keeps_prefix_counterexample:
  "subreddits (formattedData \<lparr>name = js ''app'', description = js ''a long description'',
        keywords = Array [], subreddits = Array [js ''r/r/golang'']\<rparr>) = Array [js ''r/golang''] \<and>
   matches_r_slash (js ''r/golang'')"
  by (simp add: formattedData_def replace_r_slash_def js_def)

text \<open>
  C3, amended. When the form holds an array of subreddits, the payload holds the same
  strings in the same order, each with one leading \<open>r/\<close> removed if it had one and
  unchanged otherwise; a string of the payload starts with \<open>r/\<close> exactly when the
  string of the form started with \<open>r/r/\<close>.
\<close>

theorem payload_subreddit_strips_one_prefix:
  "subreddits f = Array xs \<Longrightarrow>
     subreddits (formattedData f) = Array (map replace_r_slash xs) \<and>
     (\<forall>x \<in> set xs. replace_r_slash x = (if matches_r_slash x then drop 2 x else x) \<and>
        (matches_r_slash (replace_r_slash x) \<longleftrightarrow> matches_r_slash x \<and> matches_r_slash (drop 2 x)))"
  by (simp add: formattedData_def matches_replace) (simp add: replace_r_slash_def)

theorem payload_subreddit_strips_one_prefix_witness:
  "subreddits \<lparr>name = js ''app'', description = js ''a long description'',
        keywords = Array [js ''go''], subreddits = Array [js ''r/golang'', js ''rust'']\<rparr>
     = Array [js ''r/golang'', js ''rust''] \<and>
   subreddits (formattedData \<lparr>name = js ''app'', description = js ''a long description'',
        keywords = Array [js ''go''], subreddits = Array [js ''r/golang'', js ''rust'']\<rparr>)
     = Array [js ''golang'', js ''rust''] \<and>
   \<not> matches_r_slash (replace_r_slash (js ''r/golang'')) \<and>
   \<not> matches_r_slash (replace_r_slash (js ''rust''))"
  using payload_subreddit_strips_one_prefix
    [of "\<lparr>name = js ''app'', description = js ''a long description'',
        keywords = Array [js ''go''], subreddits = Array [js ''r/golang'', js ''rust'']\<rparr>"
        "[js ''r/golang'', js ''rust'']"]
  by (simp add: js_def replace_r_slash_def)

text \<open>
  C6 as stated does not hold: the formatting is not idempotent. From a form whose
  subreddit is \<open>r/r/golang\<close> it gives \<open>r/golang\<close>, and formatting that again gives
  \<open>golang\<close>.
\<close>

theorem formatting_not_idempotent_counterexample:
  "formattedData (formattedData \<lparr>name = js ''app'', description = js ''a long description'',
        keywords = Array [], subreddits = Array [js ''r/r/golang'']\<rparr>)
   \<noteq> formattedData \<lparr>name = js ''app'', description = js ''a long description'',
        keywords = Array [], subreddits = Array [js ''r/r/golang'']\<rparr>"
  by (simp add: formattedData_def replace_r_slash_def js_def)

text \<open>
  C6, amended. A form whose subreddits are \<open>r/golang\<close> and \<open>rust\<close> is sent with the
  subreddits \<open>golang\<close> and \<open>rust\<close>, and formatting the list \<open>golang\<close>, \<open>rust\<close>
  leaves it unchanged. In general a list none of whose strings starts with \<open>r/\<close> is
  left unchanged, and formatting twice gives the same as formatting once for every form
  none of whose subreddits starts with \<open>r/r/\<close>.
\<close>

theorem formatting_example_and_fixed_points:
  "subreddits (formattedData (f\<lparr>subreddits := Array [js ''r/golang'', js ''rust'']\<rparr>))
     = Array [js ''golang'', js ''rust''] \<and>
   subreddits (formattedData (f\<lparr>subreddits := Array [js ''golang'', js ''rust'']\<rparr>))
     = Array [js ''golang'', js ''rust''] \<and>
   (subreddits f = Array xs \<and> (\<forall>x \<in> set xs. \<not> matches_r_slash x) \<longrightarrow>
      subreddits (formattedData f) = Array xs) \<and>
   (subreddits f = Array xs \<and>
      (\<forall>x \<in> set xs. \<not> (matches_r_slash x \<and> matches_r_slash (drop 2 x))) \<longrightarrow>
      formattedData (formattedData f) = formattedData f)"
proof -
  have a: "subreddits (formattedData (f\<lparr>subreddits := Array [js ''r/golang'', js ''rust'']\<rparr>))
     = Array [js ''golang'', js ''rust'']"
    by (simp add: formattedData_def replace_r_slash_def js_def)
  have b: "subreddits (formattedData (f\<lparr>subreddits := Array [js ''golang'', js ''rust'']\<rparr>))
     = Array [js ''golang'', js ''rust'']"
    by (simp add: formattedData_def replace_r_slash_def js_def)
  have c: "subreddits (formattedData f) = Array xs"
    if "subreddits f = Array xs" "\<forall>x \<in> set xs. \<not> matches_r_slash x"
  proof -
    have "map replace_r_slash xs = xs"
      using that(2) by (simp add: map_idI replace_fixed)
    then show ?thesis using that(1) by (simp add: formattedData_def)
  qed
  have d: "formattedData (formattedData f) = formattedData f"
    if "subreddits f = Array xs"
       "\<forall>x \<in> set xs. \<not> (matches_r_slash x \<and> matches_r_slash (drop 2 x))"
  proof -
    have "map replace_r_slash (map replace_r_slash xs) = map replace_r_slash xs"
      using that(2) by (simp add: replace_twice)
    then show ?thesis using that(1) by (simp add: formattedData_def)
  qed
  from a b c d show ?thesis by blast
qed

theorem formatting_example_and_fixed_points_witness:
  "subreddits \<lparr>name = js ''app'', description = js ''a long description'',
        keywords = Array [js ''go''], subreddits = Array [js ''golang'', js ''rust'']\<rparr>
     = Array [js ''golang'', js ''rust''] \<and>
   \<not> matches_r_slash (js ''golang'') \<and> \<not> matches_r_slash (js ''rust'') \<and>
   subreddits (formattedData \<lparr>name = js ''app'', description = js ''a long description'',
        keywords = Array [js ''go''], subreddits = Array [js ''golang'', js ''rust'']\<rparr>)
     = Array [js ''golang'', js ''rust''] \<and>
   formattedData (formattedData \<lparr>name = js ''app'', description = js ''a long description'',
        keywords = Array [js ''go''], subreddits = Array [js ''golang'', js ''rust'']\<rparr>)
     = formattedData \<lparr>name = js ''app'', description = js ''a long description'',
        keywords = Array [js ''go''], subreddits = Array [js ''golang'', js ''rust'']\<rparr>"
  using formatting_example_and_fixed_points
    [of "\<lparr>name = js ''app'', description = js ''a long description'',
        keywords = Array [js ''go''], subreddits = Array [js ''golang'', js ''rust'']\<rparr>"
        "[js ''golang'', js ''rust'']"]
  by (simp add: js_def)

subsection \<open>A submission that fails\<close>

text \<open>
  C1. When \<open>createProject\<close> fails, the step, the form (name, description, keywords
  and subreddits), the open flag of the dialog and the list of projects are what they
  were before the submission; they are also untouched while the request is in flight,
  where only the busy flag and its message are set, and the busy flag is cleared at the
  end. Submitting again sends the same payload, and ends in the state that a first
  submission with the same response would have ended in, the notifications and the
  request of the failed attempt apart.
\<close>

theorem submit_failure_keeps_flow:
  "step (snd (handleSubmit (Inl e) s)) = step s \<and>
   form (snd (handleSubmit (Inl e) s)) = form s \<and>
   isCreateOpen (snd (handleSubmit (Inl e) s)) = isCreateOpen s \<and>
   projects (snd (handleSubmit (Inl e) s)) = projects s \<and>
   step (handleSubmit_begin s) = step s \<and>
   form (handleSubmit_begin s) = form s \<and>
   isCreateOpen (handleSubmit_begin s) = isCreateOpen s \<and>
   projects (handleSubmit_begin s) = projects s \<and>
   \<not> loading (snd (handleSubmit (Inl e) s)) \<and>
   calls (handleSubmit_begin (snd (handleSubmit (Inl e) s)))
     = calls (handleSubmit_begin s) @ [CreateProject (formattedData (form s))] \<and>
   snd (handleSubmit r (snd (handleSubmit (Inl e) s)))
     = (snd (handleSubmit r s))
         \<lparr>toasts := toasts (snd (handleSubmit (Inl e) s))
                     @ drop (length (toasts s)) (toasts (snd (handleSubmit r s))),
          calls := calls (snd (handleSubmit (Inl e) s))
                     @ drop (length (calls s)) (calls (snd (handleSubmit r s)))\<rparr>"
  by (cases r) (simp_all add: handler_defs onOpenChange_def resetEffect_def)

subsection \<open>The list of projects\<close>

text \<open>
  C8. When \<open>getProjects\<close> fails, the list of projects is the one held before the
  call, one error notification is added, and the promise of \<open>loadProjects\<close> resolves:
  the rejection does not leave the function.
\<close>

theorem load_failure_keeps_list:
  "projects (snd (loadProjects (Inl e) s)) = projects s \<and>
   fst (loadProjects (Inl e) s) = Inr () \<and>
   toasts (snd (loadProjects (Inl e) s))
     = toasts s @ [toast_error ''Failed to load projects. Please try again.'']"
  by (simp add: handler_defs)

text \<open>
  C4 as stated does not hold. When the reload that follows a failed delete fails too,
  the list stays the one from which the project was removed; and when the reload
  succeeds with a list that no longer has the project, the final list is that same
  list again.
\<close>

theorem delete_failure_final_list_counterexample:
  "projects (snd (handleDeleteProject (js ''p1'') (Inl NetworkError) (Inl NetworkError)
      (initial\<lparr>isLoading := False,
         projects := [\<lparr>name = js ''app'', description = js ''a long description'',
            keywords = Array [], subreddits = Array [], project_id = js ''p1''\<rparr>]\<rparr>)))
     = projects (handleDeleteProject_begin (js ''p1'')
      (initial\<lparr>isLoading := False,
         projects := [\<lparr>name = js ''app'', description = js ''a long description'',
            keywords = Array [], subreddits = Array [], project_id = js ''p1''\<rparr>]\<rparr>)) \<and>
   projects (handleDeleteProject_begin (js ''p1'')
      (initial\<lparr>isLoading := False,
         projects := [\<lparr>name = js ''app'', description = js ''a long description'',
            keywords = Array [], subreddits = Array [], project_id = js ''p1''\<rparr>]\<rparr>)) = [] \<and>
   projects (snd (handleDeleteProject (js ''p1'') (Inl (HttpError 404)) (Inr [])
      (initial\<lparr>isLoading := False,
         projects := [\<lparr>name = js ''app'', description = js ''a long description'',
            keywords = Array [], subreddits = Array [], project_id = js ''p1''\<rparr>]\<rparr>))) = []"
  by (simp add: handler_defs initial_def)

text \<open>
  C4, amended. When \<open>deleteProject\<close> fails, \<open>handleDeleteProject\<close> sends the
  reload request \<open>getProjects\<close> (it sends none when the delete succeeds), and when
  that reload succeeds the final list of projects is exactly the list \<open>getProjects\<close>
  returned. This holds for the handler run alone and for the interface: from every
  configuration in which the project can be deleted, the click, the failure of the
  delete and the success of the reload are each offered in turn and end with the
  returned list.
\<close>

theorem delete_failure_reload_gives_server_list:
  "calls (snd (handleDeleteProject_resume (Inl e) (handleDeleteProject_begin projectId s)))
     = calls s @ [DeleteProject projectId, GetProjects] \<and>
   calls (snd (handleDeleteProject_resume (Inr ()) (handleDeleteProject_begin projectId s)))
     = calls s @ [DeleteProject projectId] \<and>
   projects (snd (handleDeleteProject_resume (Inl e) (handleDeleteProject_begin projectId s)))
     = filter (\<lambda>p. project_id p \<noteq> projectId) (projects s) \<and>
   projects (snd (loadProjects_resume (Inr fetchedProjects)
       (snd (handleDeleteProject_resume (Inl e) (handleDeleteProject_begin projectId s)))))
     = fetchedProjects \<and>
   projects (snd (handleDeleteProject projectId (Inl e) (Inr fetchedProjects) s))
     = fetchedProjects \<and>
   (\<not> isLoading (fst c) \<and> projectId \<in> set (map project_id (projects (fst c))) \<longrightarrow>
      (\<exists>c1 c2 c3.
         fire (ClickDelete projectId) c = Some c1 \<and>
         fire (DeleteSettled projectId (Inl e)) c1 = Some c2 \<and>
         snd c2 = remove1 (DeleteProject projectId) (snd c @ [DeleteProject projectId])
                    @ [GetProjects] \<and>
         calls (fst c2) = calls (fst c) @ [DeleteProject projectId, GetProjects] \<and>
         fire (LoadSettled (Inr fetchedProjects)) c2 = Some c3 \<and>
         run [ClickDelete projectId, DeleteSettled projectId (Inl e),
              LoadSettled (Inr fetchedProjects)] c = Some c3 \<and>
         projects (fst c3) = fetchedProjects))"
proof -
  have handler:
    "calls (snd (handleDeleteProject_resume (Inl e) (handleDeleteProject_begin projectId s)))
       = calls s @ [DeleteProject projectId, GetProjects]"
    "calls (snd (handleDeleteProject_resume (Inr ()) (handleDeleteProject_begin projectId s)))
       = calls s @ [DeleteProject projectId]"
    "projects (snd (handleDeleteProject_resume (Inl e) (handleDeleteProject_begin projectId s)))
       = filter (\<lambda>p. project_id p \<noteq> projectId) (projects s)"
    "projects (snd (loadProjects_resume (Inr fetchedProjects)
         (snd (handleDeleteProject_resume (Inl e) (handleDeleteProject_begin projectId s)))))
       = fetchedProjects"
    "projects (snd (handleDeleteProject projectId (Inl e) (Inr fetchedProjects) s))
       = fetchedProjects"
    by (simp_all add: handler_defs)
  have machine:
    "\<exists>c1 c2 c3.
         fire (ClickDelete projectId) c = Some c1 \<and>
         fire (DeleteSettled projectId (Inl e)) c1 = Some c2 \<and>
         snd c2 = remove1 (DeleteProject projectId) (snd c @ [DeleteProject projectId])
                    @ [GetProjects] \<and>
         calls (fst c2) = calls (fst c) @ [DeleteProject projectId, GetProjects] \<and>
         fire (LoadSettled (Inr fetchedProjects)) c2 = Some c3 \<and>
         run [ClickDelete projectId, DeleteSettled projectId (Inl e),
              LoadSettled (Inr fetchedProjects)] c = Some c3 \<and>
         projects (fst c3) = fetchedProjects"
    if offered: "\<not> isLoading (fst c)" "projectId \<in> set (map project_id (projects (fst c)))"
  proof -
    define c1 where "c1 = dispatch (handleDeleteProject_begin projectId) c"
    define c2 where "c2 = dispatch (\<lambda>s. snd (handleDeleteProject_resume (Inl e) s))
                            (fst c1, remove1 (DeleteProject projectId) (snd c1))"
    define c3 where "c3 = dispatch (\<lambda>s. snd (loadProjects_resume (Inr fetchedProjects) s))
                            (fst c2, remove1 GetProjects (snd c2))"
    have pending1: "snd c1 = snd c @ [DeleteProject projectId]"
      by (simp add: c1_def dispatch_def Let_def handler_defs)
    have calls1: "calls (fst c1) = calls (fst c) @ [DeleteProject projectId]"
      by (simp add: c1_def dispatch_def Let_def handler_defs)
    have f1: "fire (ClickDelete projectId) c = Some c1"
      using offered by (simp add: c1_def)
    have f2: "fire (DeleteSettled projectId (Inl e)) c1 = Some c2"
      by (simp add: settle_def pending1 c2_def)
    have pending2: "snd c2 = remove1 (DeleteProject projectId)
                              (snd c @ [DeleteProject projectId]) @ [GetProjects]"
      by (simp add: c2_def dispatch_def Let_def handler_defs pending1)
    have calls2: "calls (fst c2) = calls (fst c) @ [DeleteProject projectId, GetProjects]"
      by (simp add: c2_def dispatch_def Let_def handler_defs calls1)
    have f3: "fire (LoadSettled (Inr fetchedProjects)) c2 = Some c3"
      by (simp add: settle_def c3_def pending2)
    have final: "projects (fst c3) = fetchedProjects"
      by (simp add: c3_def dispatch_def Let_def handler_defs)
    have "run [ClickDelete projectId, DeleteSettled projectId (Inl e),
               LoadSettled (Inr fetchedProjects)] c = Some c3"
      by (simp only: run.simps f1 f2 f3 option.case)
    with f1 f2 f3 pending2 calls2 final show ?thesis by blast
  qed
  from handler machine show ?thesis by blast
qed

theorem delete_failure_reload_gives_server_list_witness:
  "\<not> isLoading (fst (initial\<lparr>isLoading := False,
         projects := [\<lparr>name = js ''app'', description = js ''a long description'',
            keywords = Array [], subreddits = Array [], project_id = js ''p1''\<rparr>]\<rparr>,
       [])) \<and>
   js ''p1'' \<in> set (map project_id (projects (fst (initial\<lparr>isLoading := False,
         projects := [\<lparr>name = js ''app'', description = js ''a long description'',
            keywords = Array [], subreddits = Array [], project_id = js ''p1''\<rparr>]\<rparr>,
       [])))) \<and>
   run [ClickDelete (js ''p1''), DeleteSettled (js ''p1'') (Inl (HttpError 500)),
        LoadSettled (Inr [\<lparr>name = js ''app'', description = js ''a long description'',
            keywords = Array [], subreddits = Array [], project_id = js ''p1''\<rparr>])]
       (initial\<lparr>isLoading := False,
         projects := [\<lparr>name = js ''app'', description = js ''a long description'',
            keywords = Array [], subreddits = Array [], project_id = js ''p1''\<rparr>]\<rparr>,
       [])
     = Some (\<lparr>step = 1, loading = False, loadingMessage = [], form = defaultValues,
          projects = [\<lparr>name = js ''app'', description = js ''a long description'',
            keywords = Array [], subreddits = Array [], project_id = js ''p1''\<rparr>],
          isCreateOpen = False, isLoading = False,
          toasts = [toast_error ''Failed to delete project. Please try again.''],
          calls = [DeleteProject (js ''p1''), GetProjects]\<rparr>,
        [])"
  using delete_failure_reload_gives_server_list
    [where c = "(initial\<lparr>isLoading := False,
         projects := [\<lparr>name = js ''app'', description = js ''a long description'',
            keywords = Array [], subreddits = Array [], project_id = js ''p1''\<rparr>]\<rparr>,
       [])"
      and projectId = "js ''p1''" and e = "HttpError 500" and s = initial
      and fetchedProjects = "[\<lparr>name = js ''app'', description = js ''a long description'',
            keywords = Array [], subreddits = Array [], project_id = js ''p1''\<rparr>]"]
  by (simp add: machine_defs handler_defs)

subsection \<open>Closing the dialog\<close>

text \<open>
  Closing the dialog, from any state in which it is open, leaves it at step 1 with
  the default values of the form, which are an empty name, an empty description, no
  keywords and no subreddits; opening it again at once changes neither. Neither
  transition touches the busy flag, and a request in flight stays in flight.
\<close>

lemma close_then_reopen:
  "isCreateOpen s \<Longrightarrow>
     step (onOpenChange False s) = 1 \<and>
     form (onOpenChange False s) = defaultValues \<and>
     \<not> isCreateOpen (onOpenChange False s) \<and>
     loading (onOpenChange False s) = loading s \<and>
     step (onOpenChange True (onOpenChange False s)) = 1 \<and>
     form (onOpenChange True (onOpenChange False s)) = defaultValues \<and>
     isCreateOpen (onOpenChange True (onOpenChange False s)) \<and>
     name defaultValues = [] \<and> description defaultValues = [] \<and>
     keywords defaultValues = Array [] \<and> subreddits defaultValues = Array []"
  by (simp add: onOpenChange_def resetEffect_def defaultValues_def)

text \<open>
  C7. Reopening the dialog does not always show an empty draft. The draft is typed,
  the analysis is started and the dialog is dismissed while the request is in flight:
  the form is reset and the step is 1. The analysis then succeeds, and the rest of
  \<open>handleAnalyze\<close> writes the keywords and subreddits found for the discarded draft
  into the form and sets the step to 2. The dialog opened again is at step 2 with these
  keywords and subreddits and an empty name and description, and its button to create
  the project is offered: clicking it sends a project whose name and description are
  empty, which the validation of \<open>handleAnalyze\<close> would not have let through.
\<close>

theorem close_with_analysis_in_flight_keeps_result:
  "run [Mount, LoadSettled (Inr []), OpenChange True, TypeName (js ''app''),
        TypeDescription (js ''a long description''), ClickAnalyze, OpenChange False]
       (initial, [])
     = Some (\<lparr>step = 1, loading = True, loadingMessage = ''Analyzing your project...'',
          form = \<lparr>name = [], description = [], keywords = Array [], subreddits = Array []\<rparr>,
          projects = [], isCreateOpen = False, isLoading = False, toasts = [],
          calls = [GetProjects, AnalyzeInitial (js ''app'') (js ''a long description'')]\<rparr>,
        [AnalyzeInitial (js ''app'') (js ''a long description'')]) \<and>
   run [Mount, LoadSettled (Inr []), OpenChange True, TypeName (js ''app''),
        TypeDescription (js ''a long description''), ClickAnalyze, OpenChange False,
        AnalyzeSettled (js ''app'') (js ''a long description'')
          (Inr \<lparr>data_keywords = Array [js ''go''], data_subreddits = Array [js ''golang'']\<rparr>),
        OpenChange True]
       (initial, [])
     = Some (\<lparr>step = 2, loading = False, loadingMessage = [],
          form = \<lparr>name = [], description = [],
                   keywords = Array [js ''go''], subreddits = Array [js ''golang'']\<rparr>,
          projects = [], isCreateOpen = True, isLoading = False, toasts = [],
          calls = [GetProjects, AnalyzeInitial (js ''app'') (js ''a long description'')]\<rparr>,
        []) \<and>
   \<not> isFormValid \<lparr>name = [], description = [],
                   keywords = Array [js ''go''], subreddits = Array [js ''golang'']\<rparr> \<and>
   fire ClickSubmit
       (\<lparr>step = 2, loading = False, loadingMessage = [],
          form = \<lparr>name = [], description = [],
                   keywords = Array [js ''go''], subreddits = Array [js ''golang'']\<rparr>,
          projects = [], isCreateOpen = True, isLoading = False, toasts = [],
          calls = [GetProjects, AnalyzeInitial (js ''app'') (js ''a long description'')]\<rparr>,
        [])
     = Some (\<lparr>step = 2, loading = True, loadingMessage = ''Creating your project...'',
          form = \<lparr>name = [], description = [],
                   keywords = Array [js ''go''], subreddits = Array [js ''golang'']\<rparr>,
          projects = [], isCreateOpen = True, isLoading = False, toasts = [],
          calls = [GetProjects, AnalyzeInitial (js ''app'') (js ''a long description''),
                   CreateProject \<lparr>name = [], description = [],
                     keywords = Array [js ''go''], subreddits = Array [js ''golang'']\<rparr>]\<rparr>,
        [CreateProject \<lparr>name = [], description = [],
           keywords = Array [js ''go''], subreddits = Array [js ''golang'']\<rparr>])"
  by (simp add: machine_defs handler_defs formattedData_def replace_r_slash_def)

section \<open>The busy flag along every run of the interface\<close>

lemma filter_remove1_other: "\<not> P q \<Longrightarrow> filter P (remove1 q p) = filter P p"
  by (induction p) auto

lemma filter_pos: "q \<in> set p \<Longrightarrow> P q \<Longrightarrow> filter P p \<noteq> []"
  by (induction p) auto

lemma filter_remove1_last:
  "q \<in> set p \<Longrightarrow> P q \<Longrightarrow> length (filter P p) \<le> 1 \<Longrightarrow> filter P (remove1 q p) = []"
proof (induction p)
  case Nil
  then show ?case by simp
next
  case (Cons a p)
  show ?case
  proof (cases "a = q")
    case True
    with Cons.prems show ?thesis by simp
  next
    case False
    with Cons filter_pos [of q p P] show ?thesis by (cases "P a") auto
  qed
qed

text \<open>
  Settling a request of the dialog clears the busy flag and takes the one request in
  flight away; settling a request of the page touches neither.
\<close>

lemma busy_inv_settle_dialog:
  assumes "busy_inv c" and "q \<in> set (snd c)" and "dialog_request q"
    and "\<And>s. \<not> loading (snd (h s))" and "\<And>s. calls (snd (h s)) = calls s"
  shows "busy_inv (dispatch (\<lambda>s. snd (h s)) (fst c, remove1 q (snd c)))"
proof -
  have "length (filter dialog_request (snd c)) \<le> 1"
    using assms(1) by (simp add: busy_inv_def in_flight_def split: if_splits)
  then have "filter dialog_request (remove1 q (snd c)) = []"
    using assms(2,3) by (simp add: filter_remove1_last)
  then show ?thesis
    using assms(4,5) by (simp add: busy_inv_def in_flight_def dispatch_def Let_def)
qed

lemma busy_inv_settle_other:
  assumes "busy_inv c" and "\<not> dialog_request q"
    and "\<And>s. loading (snd (h s)) = loading s"
    and "\<And>s. filter dialog_request (drop (length (calls s)) (calls (snd (h s)))) = []"
  shows "busy_inv (dispatch (\<lambda>s. snd (h s)) (fst c, remove1 q (snd c)))"
  using assms by (simp add: busy_inv_def in_flight_def dispatch_def Let_def filter_remove1_other)

lemma busy_inv_fire: "busy_inv c \<Longrightarrow> fire e c = Some c' \<Longrightarrow> busy_inv c'"
proof (cases e)
  case (AnalyzeSettled n d r)
  assume a: "busy_inv c" "fire e c = Some c'"
  have "\<And>s. \<not> loading (snd (handleAnalyze_resume r s))"
       "\<And>s. calls (snd (handleAnalyze_resume r s)) = calls s"
    by (cases r; simp add: handler_defs)+
  then show ?thesis using a AnalyzeSettled
    by (auto simp: settle_def split: if_splits intro!: busy_inv_settle_dialog)
next
  case (CreateSettled pd r)
  assume a: "busy_inv c" "fire e c = Some c'"
  have "\<And>s. \<not> loading (snd (handleSubmit_resume r s))"
       "\<And>s. calls (snd (handleSubmit_resume r s)) = calls s"
    by (cases r; simp add: handler_defs onOpenChange_def resetEffect_def)+
  then show ?thesis using a CreateSettled
    by (auto simp: settle_def split: if_splits intro!: busy_inv_settle_dialog)
next
  case (DeleteSettled pid r)
  assume a: "busy_inv c" "fire e c = Some c'"
  have "\<And>s. loading (snd (handleDeleteProject_resume r s)) = loading s"
       "\<And>s. filter dialog_request
              (drop (length (calls s)) (calls (snd (handleDeleteProject_resume r s)))) = []"
    by (cases r; simp add: handler_defs)+
  then show ?thesis using a DeleteSettled
    by (auto simp: settle_def split: if_splits intro!: busy_inv_settle_other)
next
  case (LoadSettled r)
  assume a: "busy_inv c" "fire e c = Some c'"
  have "\<And>s. loading (snd (loadProjects_resume r s)) = loading s"
       "\<And>s. filter dialog_request
              (drop (length (calls s)) (calls (snd (loadProjects_resume r s)))) = []"
    by (cases r; simp add: handler_defs)+
  then show ?thesis using a LoadSettled
    by (auto simp: settle_def split: if_splits intro!: busy_inv_settle_other)
qed (auto simp: busy_inv_def in_flight_def dispatch_def handler_defs analyze_disabled_def
      submit_disabled_def onOpenChange_def resetEffect_def split: if_splits)

lemma busy_inv_run: "busy_inv c \<Longrightarrow> run es c = Some c' \<Longrightarrow> busy_inv c'"
  by (induction es arbitrary: c) (auto split: option.splits dest: busy_inv_fire)

lemma busy_inv_initial: "busy_inv (initial, [])"
  by (simp add: busy_inv_def in_flight_def initial_def)

text \<open>
  C9. In every configuration the interface reaches from its initial one, a request
  of the dialog is in flight exactly when the busy flag is set, and there is at most
  one; while the flag is set both buttons are disabled, and neither the click that
  starts an analysis nor the one that starts a submission is offered.
\<close>

theorem busy_flag_guards_controls:
  "run es (initial, []) = Some c \<Longrightarrow>
     (loading (fst c) \<longrightarrow> analyze_disabled (fst c) \<and> submit_disabled (fst c)) \<and>
     (in_flight c \<noteq> [] \<longleftrightarrow> loading (fst c)) \<and>
     length (in_flight c) \<le> 1 \<and>
     (in_flight c \<noteq> [] \<longrightarrow> fire ClickAnalyze c = None \<and> fire ClickSubmit c = None)"
proof -
  assume "run es (initial, []) = Some c"
  then have "busy_inv c"
    using busy_inv_initial busy_inv_run by blast
  then have "length (in_flight c) = (if loading (fst c) then 1 else 0)"
    by (simp add: busy_inv_def)
  then have "in_flight c \<noteq> [] \<longleftrightarrow> loading (fst c)" "length (in_flight c) \<le> 1"
    by (auto split: if_splits)
  then show ?thesis
    by (simp add: analyze_disabled_def submit_disabled_def)
qed

theorem busy_flag_guards_controls_witness:
  "run [Mount, LoadSettled (Inr []), OpenChange True, TypeName (js ''app''),
        TypeDescription (js ''a long description''), ClickAnalyze] (initial, [])
     = Some (\<lparr>step = 1, loading = True, loadingMessage = ''Analyzing your project...'',
          form = \<lparr>name = js ''app'', description = js ''a long description'',
                   keywords = Array [], subreddits = Array []\<rparr>,
          projects = [], isCreateOpen = True, isLoading = False, toasts = [],
          calls = [GetProjects, AnalyzeInitial (js ''app'') (js ''a long description'')]\<rparr>,
        [AnalyzeInitial (js ''app'') (js ''a long description'')]) \<and>
   in_flight (\<lparr>step = 1, loading = True, loadingMessage = ''Analyzing your project...'',
          form = \<lparr>name = js ''app'', description = js ''a long description'',
                   keywords = Array [], subreddits = Array []\<rparr>,
          projects = [], isCreateOpen = True, isLoading = False, toasts = [],
          calls = [GetProjects, AnalyzeInitial (js ''app'') (js ''a long description'')]\<rparr>,
        [AnalyzeInitial (js ''app'') (js ''a long description'')])
     = [AnalyzeInitial (js ''app'') (js ''a long description'')] \<and>
   fire ClickAnalyze (\<lparr>step = 1, loading = True, loadingMessage = ''Analyzing your project...'',
          form = \<lparr>name = js ''app'', description = js ''a long description'',
                   keywords = Array [], subreddits = Array []\<rparr>,
          projects = [], isCreateOpen = True, isLoading = False, toasts = [],
          calls = [GetProjects, AnalyzeInitial (js ''app'') (js ''a long description'')]\<rparr>,
        [AnalyzeInitial (js ''app'') (js ''a long description'')]) = None \<and>
   fire ClickSubmit (\<lparr>step = 1, loading = True, loadingMessage = ''Analyzing your project...'',
          form = \<lparr>name = js ''app'', description = js ''a long description'',
                   keywords = Array [], subreddits = Array []\<rparr>,
          projects = [], isCreateOpen = True, isLoading = False, toasts = [],
          calls = [GetProjects, AnalyzeInitial (js ''app'') (js ''a long description'')]\<rparr>,
        [AnalyzeInitial (js ''app'') (js ''a long description'')]) = None"
proof -
  have reached:
    "run [Mount, LoadSettled (Inr []), OpenChange True, TypeName (js ''app''),
        TypeDescription (js ''a long description''), ClickAnalyze] (initial, [])
     = Some (\<lparr>step = 1, loading = True, loadingMessage = ''Analyzing your project...'',
          form = \<lparr>name = js ''app'', description = js ''a long description'',
                   keywords = Array [], subreddits = Array []\<rparr>,
          projects = [], isCreateOpen = True, isLoading = False, toasts = [],
          calls = [GetProjects, AnalyzeInitial (js ''app'') (js ''a long description'')]\<rparr>,
        [AnalyzeInitial (js ''app'') (js ''a long description'')])"
    by (simp add: machine_defs handler_defs)
  show ?thesis
    using reached busy_flag_guards_controls [OF reached]
    by (simp add: in_flight_def)
qed

end
